theory Spec2Isabelle
  imports Main
begin

section \<open>Data model (core/models/user.model.ts, core/guards/role.guard.ts)\<close>

text \<open>
  \<^verbatim>\<open>type UserRole = 'admin' | 'user' | 'moderator' | 'guest'\<close>: a closed set of string
  literals, compared by equality only.
\<close>

datatype UserRole = admin | user | moderator | guest

text \<open>
  Firestore timestamps. \<^verbatim>\<open>serverTimestamp()\<close> is a sentinel that the store replaces by
  its own clock when the write is applied; the client-side object keeps the sentinel.
\<close>

datatype Timestamp = serverTimestamp | Timestamp nat

text \<open>
  \<^verbatim>\<open>interface User\<close>. Optional fields (\<^verbatim>\<open>photoURL?: string | null\<close>,
  \<^verbatim>\<open>createdAt?\<close>, \<^verbatim>\<open>updatedAt?\<close>) are options.
\<close>

record User =
  uid :: string
  email :: string
  emailVerified :: bool
  displayName :: string
  photoURL :: "string option"
  roles :: "UserRole list"
  permissions :: "string list"
  createdAt :: "Timestamp option"
  updatedAt :: "Timestamp option"

text \<open>
  \<^verbatim>\<open>interface UserProfile\<close>, the document stored under \<^verbatim>\<open>users/<uid>\<close>. The fields carry
  the prefix \<open>up_\<close>. The interface declares \<^verbatim>\<open>roles\<close> and \<^verbatim>\<open>permissions\<close> as
  present, but \<^verbatim>\<open>getUserProfile\<close> reads the document through a cast and guards both
  with \<^verbatim>\<open>??\<close>, so a stored document may lack them: they are options here.
\<close>

record UserProfile =
  up_email :: string
  up_displayName :: string
  up_photoURL :: "string option"
  up_roles :: "UserRole list option"
  up_permissions :: "string list option"
  up_createdAt :: "Timestamp option"
  up_updatedAt :: "Timestamp option"
  up_lastLoginAt :: "Timestamp option"

text \<open>
  The fields of the provider's \<^verbatim>\<open>User\<close> (imported as \<^verbatim>\<open>FirebaseUser\<close>) that the service
  reads, with the prefix \<open>fu_\<close>; \<^verbatim>\<open>email\<close>, \<^verbatim>\<open>displayName\<close> and \<^verbatim>\<open>photoURL\<close> are
  \<^verbatim>\<open>string | null\<close> there.
\<close>

record FirebaseUser =
  fu_uid :: string
  fu_email :: "string option"
  fu_emailVerified :: bool
  fu_displayName :: "string option"
  fu_photoURL :: "string option"

text \<open>
  A thrown value as \<^verbatim>\<open>handleAuthError(error: any)\<close> reads it: \<^verbatim>\<open>error.code\<close> and
  \<^verbatim>\<open>error.message\<close>, either of which may be undefined.
\<close>

record FirebaseError =
  code :: "string option"
  message :: "string option"

text \<open>
  The service: its four writable signals, the \<^verbatim>\<open>users\<close> collection of the injected
  Firestore, the navigations requested from the injected router, and what was written
  with \<^verbatim>\<open>console.error\<close>.
\<close>

record AuthService =
  currentUser :: "User option"
  firebaseUser :: "FirebaseUser option"
  loading :: bool
  authError :: "string option"
  firestore :: "string \<rightharpoonup> UserProfile"
  router :: "string list list"
  console :: "(string \<times> FirebaseError) list"

text \<open>\<^verbatim>\<open>interface RoleRouteData\<close>: every field is optional.\<close>

record RoleRouteData =
  rd_roles :: "UserRole list option"
  rd_permissions :: "string list option"
  rd_requireAll :: "bool option"

text \<open>
  What a guard returns: \<^verbatim>\<open>true\<close>, or \<^verbatim>\<open>router.createUrlTree(commands, { queryParams })\<close>.
\<close>

datatype GuardResult = Allow | Redirect "string list" "(string \<times> string) list"


section \<open>Derived queries (core/services/auth.service.ts)\<close>

text \<open>\<^verbatim>\<open>computed(() => !!this.currentUser() && !!this.firebaseUser())\<close>\<close>

definition isAuthenticated :: "AuthService \<Rightarrow> bool" where
  "isAuthenticated s = (currentUser s \<noteq> None \<and> firebaseUser s \<noteq> None)"

text \<open>\<^verbatim>\<open>computed(() => this.currentUser()?.roles ?? [])\<close>\<close>

definition userRoles :: "AuthService \<Rightarrow> UserRole list" where
  "userRoles s = (case currentUser s of None \<Rightarrow> [] | Some u \<Rightarrow> roles u)"

definition userPermissions :: "AuthService \<Rightarrow> string list" where
  "userPermissions s = (case currentUser s of None \<Rightarrow> [] | Some u \<Rightarrow> permissions u)"

text \<open>\<^verbatim>\<open>computed(() => this.firebaseUser()?.emailVerified ?? false)\<close>\<close>

definition isEmailVerified :: "AuthService \<Rightarrow> bool" where
  "isEmailVerified s = (case firebaseUser s of None \<Rightarrow> False | Some f \<Rightarrow> fu_emailVerified f)"

definition isLoading :: "AuthService \<Rightarrow> bool" where
  "isLoading s = loading s"

text \<open>\<^verbatim>\<open>this.userRoles().includes(role)\<close>\<close>

definition hasRole :: "AuthService \<Rightarrow> UserRole \<Rightarrow> bool" where
  "hasRole s role = (role \<in> set (userRoles s))"

text \<open>\<^verbatim>\<open>roles.some((role) => this.hasRole(role))\<close>\<close>

definition hasAnyRole :: "AuthService \<Rightarrow> UserRole list \<Rightarrow> bool" where
  "hasAnyRole s rs = list_ex (hasRole s) rs"

text \<open>\<^verbatim>\<open>roles.every((role) => this.hasRole(role))\<close>\<close>

definition hasAllRoles :: "AuthService \<Rightarrow> UserRole list \<Rightarrow> bool" where
  "hasAllRoles s rs = list_all (hasRole s) rs"

definition hasPermission :: "AuthService \<Rightarrow> string \<Rightarrow> bool" where
  "hasPermission s permission = (permission \<in> set (userPermissions s))"

definition hasAnyPermission :: "AuthService \<Rightarrow> string list \<Rightarrow> bool" where
  "hasAnyPermission s ps = list_ex (hasPermission s) ps"


section \<open>Role and permission guards (core/guards/role.guard.ts)\<close>

text \<open>
  \<^verbatim>\<open>roleGuard\<close>: \<^verbatim>\<open>routeData.roles ?? []\<close>, \<^verbatim>\<open>routeData.requireAll ?? false\<close>, then the
  checks in the order of the source.
\<close>

definition roleGuard :: "RoleRouteData \<Rightarrow> AuthService \<Rightarrow> GuardResult" where
  "roleGuard routeData s =
     (if \<not> isAuthenticated s then Redirect [''/login''] []
      else
        let requiredRoles = (case rd_roles routeData of None \<Rightarrow> [] | Some rs \<Rightarrow> rs);
            requireAll = (case rd_requireAll routeData of None \<Rightarrow> False | Some b \<Rightarrow> b)
        in if length requiredRoles = 0 then Allow
           else
             let hasAccess = (if requireAll then hasAllRoles s requiredRoles
                              else hasAnyRole s requiredRoles)
             in if hasAccess then Allow else Redirect [''/unauthorized''] [])"

text \<open>
  \<^verbatim>\<open>permissionGuard\<close>: the same shape; the ALL branch is
  \<^verbatim>\<open>requiredPermissions.every((p) => authService.hasPermission(p))\<close>.
\<close>

definition permissionGuard :: "RoleRouteData \<Rightarrow> AuthService \<Rightarrow> GuardResult" where
  "permissionGuard routeData s =
     (if \<not> isAuthenticated s then Redirect [''/login''] []
      else
        let requiredPermissions = (case rd_permissions routeData of None \<Rightarrow> [] | Some ps \<Rightarrow> ps);
            requireAll = (case rd_requireAll routeData of None \<Rightarrow> False | Some b \<Rightarrow> b)
        in if length requiredPermissions = 0 then Allow
           else
             let hasAccess = (if requireAll then list_all (hasPermission s) requiredPermissions
                              else hasAnyPermission s requiredPermissions)
             in if hasAccess then Allow else Redirect [''/unauthorized''] [])"

text \<open>
  \<^verbatim>\<open>requireRoles(...roles)\<close> returns \<^verbatim>\<open>() => { ... }\<close>: the router calls it with the route,
  which the closure does not read.
\<close>

definition requireRoles :: "UserRole list \<Rightarrow> RoleRouteData \<Rightarrow> AuthService \<Rightarrow> GuardResult" where
  "requireRoles rs = (\<lambda>routeData s.
     if \<not> isAuthenticated s then Redirect [''/login''] []
     else if hasAnyRole s rs then Allow
     else Redirect [''/unauthorized''] [])"

definition requirePermissions :: "string list \<Rightarrow> RoleRouteData \<Rightarrow> AuthService \<Rightarrow> GuardResult" where
  "requirePermissions ps = (\<lambda>routeData s.
     if \<not> isAuthenticated s then Redirect [''/login''] []
     else if hasAnyPermission s ps then Allow
     else Redirect [''/unauthorized''] [])"


section \<open>Authentication guards (core/guards/auth.guard.ts)\<close>

text \<open>
  \<^verbatim>\<open>authGuard\<close> polls while the service is loading: \<^verbatim>\<open>setInterval(..., 50)\<close> runs the
  callback until it clears the interval, which it does the first time it reads
  \<^verbatim>\<open>isLoading()\<close> as false. \<open>ticks n\<close> is the service as the \<open>n\<close>-th run of the
  callback reads it. The promise has no timeout, so the poll is a partial function: the
  value \<open>None\<close> is a promise that never resolves.
\<close>

partial_function (option) checkAuth :: "(nat \<Rightarrow> AuthService) \<Rightarrow> string \<Rightarrow> nat \<Rightarrow> GuardResult option" where
  "checkAuth ticks url n =
     (if \<not> isLoading (ticks n) then
        (if isAuthenticated (ticks n) then Some Allow
         else Some (Redirect [''/login''] [(''returnUrl'', url)]))
      else checkAuth ticks url (Suc n))"

text \<open>
  \<^verbatim>\<open>authGuard(route, state)\<close>: \<open>url\<close> is \<^verbatim>\<open>state.url\<close>, \<open>s\<close> the service when the guard is
  called.
\<close>

definition authGuard :: "string \<Rightarrow> AuthService \<Rightarrow> (nat \<Rightarrow> AuthService) \<Rightarrow> GuardResult option" where
  "authGuard url s ticks =
     (if isLoading s then checkAuth ticks url 0
      else if isAuthenticated s then Some Allow
      else Some (Redirect [''/login''] [(''returnUrl'', url)]))"

text \<open>\<^verbatim>\<open>Array.prototype.join\<close> on strings.\<close>

fun join :: "string \<Rightarrow> string list \<Rightarrow> string" where
  "join sep [] = []"
| "join sep [x] = x"
| "join sep (x # y # ys) = x @ sep @ join sep (y # ys)"

text \<open>
  \<^verbatim>\<open>authMatchGuard(route, segments)\<close>: \<open>segments\<close> are the \<^verbatim>\<open>path\<close>s of the URL segments.
  It reads the service once, when it is called.
\<close>

definition authMatchGuard :: "string list \<Rightarrow> AuthService \<Rightarrow> GuardResult" where
  "authMatchGuard segments s =
     (if isAuthenticated s then Allow
      else let returnUrl = ''/'' @ join ''/'' segments
           in Redirect [''/login''] [(''returnUrl'', returnUrl)])"


section \<open>The service's operations (core/services/auth.service.ts)\<close>

text \<open>
  The identity provider and the document store are external. \<open>Env\<close> holds what their
  calls do during one operation: the sign-in and sign-up calls return the provider's user
  or the error they reject with; for the other calls \<open>None\<close> means the call resolves and
  \<open>Some e\<close> that it rejects with \<open>e\<close>; \<open>now\<close> is the store's clock. \<open>listenerFirst\<close>
  says how the listener's work for an event that an operation causes is ordered with the
  rest of that operation (see \<open>withAuthStateChange\<close>).
\<close>

record Env =
  signInWithEmailAndPassword :: "string \<Rightarrow> string \<Rightarrow> FirebaseError + FirebaseUser"
  createUserWithEmailAndPassword :: "string \<Rightarrow> string \<Rightarrow> FirebaseError + FirebaseUser"
  updateProfile :: "FirebaseError option"
  sendEmailVerification :: "FirebaseError option"
  signOut :: "FirebaseError option"
  getDoc :: "FirebaseError option"
  setDoc :: "FirebaseError option"
  updateDoc :: "FirebaseError option"
  now :: nat
  listenerFirst :: bool

text \<open>The store replaces the \<^verbatim>\<open>serverTimestamp()\<close> sentinel when it applies a write.\<close>

definition stamp :: "nat \<Rightarrow> Timestamp option \<Rightarrow> Timestamp option" where
  "stamp t x = (case x of Some serverTimestamp \<Rightarrow> Some (Timestamp t) | _ \<Rightarrow> x)"

definition stored :: "nat \<Rightarrow> UserProfile \<Rightarrow> UserProfile" where
  "stored t d = d\<lparr>up_createdAt := stamp t (up_createdAt d),
                  up_updatedAt := stamp t (up_updatedAt d),
                  up_lastLoginAt := stamp t (up_lastLoginAt d)\<rparr>"

text \<open>
  \<^verbatim>\<open>getUserProfile(uid, emailVerified)\<close>: \<^verbatim>\<open>data.roles ?? ['user']\<close> and
  \<^verbatim>\<open>data.permissions ?? ['read']\<close> replace a missing field only.
\<close>

definition getUserProfile :: "Env \<Rightarrow> AuthService \<Rightarrow> string \<Rightarrow> bool \<Rightarrow> FirebaseError + User option" where
  "getUserProfile env s uid' emailVerified' =
     (case getDoc env of
        Some e \<Rightarrow> Inl e
      | None \<Rightarrow>
          (case firestore s uid' of
             Some data \<Rightarrow>
               Inr (Some \<lparr>uid = uid',
                          email = up_email data,
                          emailVerified = emailVerified',
                          displayName = up_displayName data,
                          photoURL = up_photoURL data,
                          roles = (case up_roles data of None \<Rightarrow> [user] | Some rs \<Rightarrow> rs),
                          permissions = (case up_permissions data of None \<Rightarrow> [''read''] | Some ps \<Rightarrow> ps),
                          createdAt = up_createdAt data,
                          updatedAt = up_updatedAt data\<rparr>)
           | None \<Rightarrow> Inr None))"

text \<open>
  \<^verbatim>\<open>createUserProfile(firebaseUser, displayName?)\<close>: builds the document, writes it with
  \<^verbatim>\<open>setDoc\<close> (which replaces the document), and returns
  \<^verbatim>\<open>{ uid, emailVerified, ...userProfile }\<close>. A rejected \<^verbatim>\<open>setDoc\<close> leaves the store as
  it was.
\<close>

definition createUserProfile ::
  "Env \<Rightarrow> AuthService \<Rightarrow> FirebaseUser \<Rightarrow> string option \<Rightarrow> FirebaseError + (User \<times> AuthService)" where
  "createUserProfile env s fu displayName' =
     (let email' = (case fu_email fu of None \<Rightarrow> [] | Some e \<Rightarrow> e);
          name' = (case displayName' of
                     Some d \<Rightarrow> d
                   | None \<Rightarrow> (case fu_displayName fu of Some d \<Rightarrow> d | None \<Rightarrow> ''User''));
          userProfile = \<lparr>up_email = email',
                          up_displayName = name',
                          up_photoURL = fu_photoURL fu,
                          up_roles = Some [user],
                          up_permissions = Some [''read''],
                          up_createdAt = Some serverTimestamp,
                          up_updatedAt = Some serverTimestamp,
                          up_lastLoginAt = None\<rparr>
      in case setDoc env of
           Some e \<Rightarrow> Inl e
         | None \<Rightarrow>
             Inr (\<lparr>uid = fu_uid fu,
                   email = email',
                   emailVerified = fu_emailVerified fu,
                   displayName = name',
                   photoURL = fu_photoURL fu,
                   roles = [user],
                   permissions = [''read''],
                   createdAt = Some serverTimestamp,
                   updatedAt = Some serverTimestamp\<rparr>,
                  s\<lparr>firestore := (firestore s)(fu_uid fu \<mapsto> stored (now env) userProfile)\<rparr>))"

text \<open>
  \<^verbatim>\<open>handleAuthError(error)\<close>: clears \<^verbatim>\<open>loading\<close>, maps \<^verbatim>\<open>error.code\<close> to a message (the
  default is \<^verbatim>\<open>error.message || 'An error occurred. Please try again.'\<close>, where an
  undefined or empty message is falsy), stores it in \<^verbatim>\<open>authError\<close> and fails with it.
\<close>

definition handleAuthError :: "AuthService \<Rightarrow> FirebaseError \<Rightarrow> (string + 'a) \<times> AuthService" where
  "handleAuthError s e =
     (let s1 = s\<lparr>loading := False\<rparr>;
          msg =
            (if code e = Some ''auth/user-not-found'' then ''No account found with this email address.''
             else if code e = Some ''auth/wrong-password'' then ''Incorrect password. Please try again.''
             else if code e = Some ''auth/invalid-credential'' then ''Invalid email or password. Please try again.''
             else if code e = Some ''auth/email-already-in-use'' then ''An account with this email already exists.''
             else if code e = Some ''auth/weak-password'' then ''Password should be at least 6 characters.''
             else if code e = Some ''auth/invalid-email'' then ''Please enter a valid email address.''
             else if code e = Some ''auth/too-many-requests'' then ''Too many failed attempts. Please try again later.''
             else if code e = Some ''auth/popup-closed-by-user'' then ''Sign-in popup was closed. Please try again.''
             else (case message e of
                     None \<Rightarrow> ''An error occurred. Please try again.''
                   | Some m \<Rightarrow> if m = [] then ''An error occurred. Please try again.'' else m))
      in (Inl msg, s1\<lparr>authError := Some msg\<rparr>))"

text \<open>
  The listener registered in the constructor. \<open>reconcile\<close> is the body of its \<^verbatim>\<open>try\<close>
  block; \<open>onAuthStateChanged\<close> is the whole callback for one provider event.
\<close>

definition reconcile :: "Env \<Rightarrow> AuthService \<Rightarrow> FirebaseUser \<Rightarrow> FirebaseError + AuthService" where
  "reconcile env s fu =
     (case getUserProfile env s (fu_uid fu) (fu_emailVerified fu) of
        Inl e \<Rightarrow> Inl e
      | Inr (Some userProfile) \<Rightarrow> Inr (s\<lparr>currentUser := Some userProfile\<rparr>)
      | Inr None \<Rightarrow>
          (case createUserProfile env s fu None of
             Inl e \<Rightarrow> Inl e
           | Inr (newProfile, s') \<Rightarrow> Inr (s'\<lparr>currentUser := Some newProfile\<rparr>)))"

definition onAuthStateChanged :: "Env \<Rightarrow> FirebaseUser option \<Rightarrow> AuthService \<Rightarrow> AuthService" where
  "onAuthStateChanged env firebaseUser' s =
     (let s1 = s\<lparr>firebaseUser := firebaseUser'\<rparr>;
          s2 = (case firebaseUser' of
                  Some fu \<Rightarrow>
                    (case reconcile env s1 fu of
                       Inr s' \<Rightarrow> s'
                     | Inl e \<Rightarrow> s1\<lparr>console := console s1 @ [(''Error fetching user profile:'', e)],
                                     currentUser := None\<rparr>)
                | None \<Rightarrow> s1\<lparr>currentUser := None\<rparr>)
      in s2\<lparr>loading := False\<rparr>)"

text \<open>
  The provider calls the listener whenever its current user changes, so a resolved
  \<^verbatim>\<open>signInWithEmailAndPassword\<close>, \<^verbatim>\<open>createUserWithEmailAndPassword\<close> or \<^verbatim>\<open>signOut\<close> on
  \<^verbatim>\<open>this.auth\<close> also runs the callback above, with the new user or null. The callback is
  asynchronous and so is the rest \<open>k\<close> of the operation that made the call; which of
  them finishes first is a matter of timing. \<open>withAuthStateChange\<close> takes the two
  sequential orders: the listener's work done before \<open>k\<close> starts, or after \<open>k\<close> has
  finished. The provider's user is a value here: the listener sees it as the provider
  returned it.
\<close>

definition withAuthStateChange ::
  "Env \<Rightarrow> FirebaseUser option \<Rightarrow> (AuthService \<Rightarrow> 'r \<times> AuthService) \<Rightarrow> AuthService \<Rightarrow> 'r \<times> AuthService" where
  "withAuthStateChange env firebaseUser' k s =
     (if listenerFirst env then k (onAuthStateChanged env firebaseUser' s)
      else (case k s of (r, s') \<Rightarrow> (r, onAuthStateChanged env firebaseUser' s')))"

text \<open>
  \<^verbatim>\<open>handleAuthSuccess(credential)\<close>: fetch the profile; create it when absent, otherwise
  \<^verbatim>\<open>updateDoc\<close> the login timestamps of the record just read; then set
  \<^verbatim>\<open>currentUser\<close>. Every step that can reject does so before it changes the service.
\<close>

definition handleAuthSuccess :: "Env \<Rightarrow> AuthService \<Rightarrow> FirebaseUser \<Rightarrow> FirebaseError + (User \<times> AuthService)" where
  "handleAuthSuccess env s fu =
     (case getUserProfile env s (fu_uid fu) (fu_emailVerified fu) of
        Inl e \<Rightarrow> Inl e
      | Inr None \<Rightarrow>
          (case createUserProfile env s fu None of
             Inl e \<Rightarrow> Inl e
           | Inr (userProfile, s') \<Rightarrow> Inr (userProfile, s'\<lparr>currentUser := Some userProfile\<rparr>))
      | Inr (Some userProfile) \<Rightarrow>
          (case updateDoc env of
             Some e \<Rightarrow> Inl e
           | None \<Rightarrow>
               Inr (userProfile,
                    s\<lparr>firestore := (\<lambda>k. if k = fu_uid fu
                                          then map_option (\<lambda>d. d\<lparr>up_lastLoginAt := Some (Timestamp (now env)),
                                                                  up_updatedAt := Some (Timestamp (now env))\<rparr>)
                                                 (firestore s k)
                                          else firestore s k),
                      currentUser := Some userProfile\<rparr>)))"

text \<open>
  The end of the pipe that \<^verbatim>\<open>login\<close>, \<^verbatim>\<open>loginWithGoogle\<close> and \<^verbatim>\<open>register\<close> share:
  \<^verbatim>\<open>tap(() => this.loading.set(false))\<close> on a value,
  \<^verbatim>\<open>catchError((error) => this.handleAuthError(error))\<close> on an error.
\<close>

definition settle :: "(FirebaseError + User) \<times> AuthService \<Rightarrow> (string + User) \<times> AuthService" where
  "settle a =
     (case a of
        (Inr userProfile, s) \<Rightarrow> (Inr userProfile, s\<lparr>loading := False\<rparr>)
      | (Inl e, s) \<Rightarrow> handleAuthError s e)"

text \<open>
  \<^verbatim>\<open>login(email, password)\<close>. \<open>login_begin\<close> is the synchronous part
  (\<^verbatim>\<open>loading.set(true); authError.set(null)\<close>), after which the caller holds the
  observable. \<open>login_attempt\<close> is
  \<^verbatim>\<open>from(signInWithEmailAndPassword(...)).pipe(switchMap(handleAuthSuccess))\<close>: a rejected
  sign-in changes nothing; a resolved one makes the provider call the listener with the
  signed-in user, and \<^verbatim>\<open>handleAuthSuccess\<close> is the rest of the operation. It returns
  the error of whichever step rejects, with the service as the steps before left it.
\<close>

definition login_begin :: "AuthService \<Rightarrow> AuthService" where
  "login_begin s = s\<lparr>loading := True, authError := None\<rparr>"

definition login_attempt ::
  "Env \<Rightarrow> string \<Rightarrow> string \<Rightarrow> AuthService \<Rightarrow> (FirebaseError + User) \<times> AuthService" where
  "login_attempt env email' password s1 =
     (case signInWithEmailAndPassword env email' password of
        Inl e \<Rightarrow> (Inl e, s1)
      | Inr fu \<Rightarrow>
          withAuthStateChange env (Some fu)
            (\<lambda>s2. case handleAuthSuccess env s2 fu of
                     Inl e \<Rightarrow> (Inl e, s2)
                   | Inr (userProfile, s3) \<Rightarrow> (Inr userProfile, s3))
            s1)"

definition login :: "Env \<Rightarrow> string \<Rightarrow> string \<Rightarrow> AuthService \<Rightarrow> (string + User) \<times> AuthService" where
  "login env email' password s = settle (login_attempt env email' password (login_begin s))"

text \<open>
  \<^verbatim>\<open>register(email, password, displayName)\<close>: a resolved
  \<^verbatim>\<open>createUserWithEmailAndPassword\<close> signs the new user in, so the provider calls the
  listener with it. The \<^verbatim>\<open>switchMap\<close> callback then awaits \<^verbatim>\<open>updateProfile\<close>,
  \<^verbatim>\<open>sendEmailVerification\<close> and \<^verbatim>\<open>createUserProfile\<close> in this order, with no \<^verbatim>\<open>try\<close>
  around any of them, so the first rejection rejects the callback and reaches
  \<^verbatim>\<open>catchError\<close>. A resolved \<^verbatim>\<open>updateProfile\<close> has set the display name of
  \<^verbatim>\<open>credential.user\<close>.
\<close>

definition register :: "Env \<Rightarrow> string \<Rightarrow> string \<Rightarrow> string \<Rightarrow> AuthService \<Rightarrow> (string + User) \<times> AuthService" where
  "register env email' password displayName' s =
     (let s1 = s\<lparr>loading := True, authError := None\<rparr>
      in settle
           (case createUserWithEmailAndPassword env email' password of
              Inl e \<Rightarrow> (Inl e, s1)
            | Inr fu \<Rightarrow>
                withAuthStateChange env (Some fu)
                  (\<lambda>s2. case updateProfile env of
                           Some e \<Rightarrow> (Inl e, s2)
                         | None \<Rightarrow>
                             (case sendEmailVerification env of
                                Some e \<Rightarrow> (Inl e, s2)
                              | None \<Rightarrow>
                                  (case createUserProfile env s2 (fu\<lparr>fu_displayName := Some displayName'\<rparr>)
                                          (Some displayName') of
                                     Inl e \<Rightarrow> (Inl e, s2)
                                   | Inr (userProfile, s3) \<Rightarrow>
                                       (Inr userProfile, s3\<lparr>currentUser := Some userProfile\<rparr>))))
                  s1))"

text \<open>
  \<^verbatim>\<open>logout()\<close>: \<^verbatim>\<open>tap\<close> runs its callback only when \<^verbatim>\<open>signOut\<close> resolves, and then
  the provider also calls the listener with null; \<^verbatim>\<open>catchError\<close> logs the error and
  completes with \<^verbatim>\<open>of(void 0)\<close>.
\<close>

definition logout :: "Env \<Rightarrow> AuthService \<Rightarrow> (string + unit) \<times> AuthService" where
  "logout env s =
     (case signOut env of
        None \<Rightarrow>
          withAuthStateChange env None
            (\<lambda>s1. (Inr (), s1\<lparr>currentUser := None,
                               firebaseUser := None,
                               router := router s1 @ [[''/login'']]\<rparr>))
            s
      | Some e \<Rightarrow> (Inr (), s\<lparr>console := console s @ [(''Logout error:'', e)]\<rparr>))"


text \<open>The service as its field initialisers leave it, over a given store.\<close>

definition init :: "(string \<rightharpoonup> UserProfile) \<Rightarrow> AuthService" where
  "init fs = \<lparr>currentUser = None, firebaseUser = None, loading = True, authError = None,
              firestore = fs, router = [], console = []\<rparr>"


section \<open>The error table\<close>

text \<open>
  The \<^verbatim>\<open>case\<close> labels of the \<^verbatim>\<open>switch\<close> in \<^verbatim>\<open>handleAuthError\<close> with their messages, the
  message of its \<^verbatim>\<open>default\<close> branch, and all nine string literals together.
\<close>

definition errorTable :: "(string \<times> string) list" where
  "errorTable =
     [(''auth/user-not-found'', ''No account found with this email address.''),
      (''auth/wrong-password'', ''Incorrect password. Please try again.''),
      (''auth/invalid-credential'', ''Invalid email or password. Please try again.''),
      (''auth/email-already-in-use'', ''An account with this email already exists.''),
      (''auth/weak-password'', ''Password should be at least 6 characters.''),
      (''auth/invalid-email'', ''Please enter a valid email address.''),
      (''auth/too-many-requests'', ''Too many failed attempts. Please try again later.''),
      (''auth/popup-closed-by-user'', ''Sign-in popup was closed. Please try again.'')]"

definition fallbackMessage :: string where
  "fallbackMessage = ''An error occurred. Please try again.''"

text \<open>The message of an error, read off the table.\<close>

definition errorMessage :: "FirebaseError \<Rightarrow> string" where
  "errorMessage e =
     (case Option.bind (code e) (map_of errorTable) of
        Some fixed \<Rightarrow> fixed
      | None \<Rightarrow>
          (case message e of
             None \<Rightarrow> fallbackMessage
           | Some raw \<Rightarrow> if raw = [] then fallbackMessage else raw))"

definition fixedMessages :: "string list" where
  "fixedMessages = map snd errorTable @ [fallbackMessage]"


section \<open>Sample sessions\<close>

text \<open>Concrete values on which the theorems below are instantiated.\<close>

definition sample_firebaseUser :: FirebaseUser where
  "sample_firebaseUser = \<lparr>fu_uid = ''u1'', fu_email = Some ''ann@example.org'', fu_emailVerified = True,
                            fu_displayName = Some ''Ann'', fu_photoURL = None\<rparr>"

definition sample_user :: "UserRole list \<Rightarrow> string list \<Rightarrow> User" where
  "sample_user rs ps = \<lparr>uid = ''u1'', email = ''ann@example.org'', emailVerified = True,
                         displayName = ''Ann'', photoURL = None, roles = rs, permissions = ps,
                         createdAt = None, updatedAt = None\<rparr>"

definition signedIn :: "UserRole list \<Rightarrow> string list \<Rightarrow> AuthService" where
  "signedIn rs ps = \<lparr>currentUser = Some (sample_user rs ps), firebaseUser = Some sample_firebaseUser,
                      loading = False, authError = None, firestore = Map.empty, router = [],
                      console = []\<rparr>"


text \<open>A provider and a store whose calls all succeed, and two errors.\<close>

definition provider_ok :: Env where
  "provider_ok = \<lparr>signInWithEmailAndPassword = (\<lambda>e p. Inr sample_firebaseUser),
                    createUserWithEmailAndPassword = (\<lambda>e p. Inr sample_firebaseUser),
                    updateProfile = None, sendEmailVerification = None, signOut = None,
                    getDoc = None, setDoc = None, updateDoc = None, now = 1000,
                    listenerFirst = True\<rparr>"

definition wrong_password :: FirebaseError where
  "wrong_password = \<lparr>code = Some ''auth/wrong-password'',
                       message = Some ''Firebase: Error (auth/wrong-password).''\<rparr>"

definition network_error :: FirebaseError where
  "network_error = \<lparr>code = Some ''auth/network-request-failed'',
                      message = Some ''Firebase: Error (auth/network-request-failed).''\<rparr>"


text \<open>The store refusing a write.\<close>

definition permission_denied :: FirebaseError where
  "permission_denied = \<lparr>code = Some ''permission-denied'',
                          message = Some ''Missing or insufficient permissions.''\<rparr>"

text \<open>A stored record without roles and permissions.\<close>

definition bare_doc :: UserProfile where
  "bare_doc = \<lparr>up_email = ''ann@example.org'', up_displayName = ''Ann'', up_photoURL = None,
                up_roles = None, up_permissions = None, up_createdAt = None, up_updatedAt = None,
                up_lastLoginAt = None\<rparr>"

text \<open>A provider whose sign-in rejects with a given error.\<close>

definition provider_signIn_fails :: "FirebaseError \<Rightarrow> Env" where
  "provider_signIn_fails e = provider_ok\<lparr>signInWithEmailAndPassword := (\<lambda>em pw. Inl e)\<rparr>"

text \<open>
  Snapshots for the polling callback: the service is \<open>s\<close> for the first \<open>n\<close> runs and
  \<open>t\<close> from then on.
\<close>

definition settling :: "nat \<Rightarrow> AuthService \<Rightarrow> AuthService \<Rightarrow> nat \<Rightarrow> AuthService" where
  "settling n s t k = (if k < n then s else t)"


section \<open>Theorems\<close>

subsection \<open>The list queries as set operations\<close>

lemma hasAnyRole_set: "hasAnyRole s rs = (set rs \<inter> set (userRoles s) \<noteq> {})"
  by (auto simp: hasAnyRole_def hasRole_def list_ex_iff)

lemma hasAllRoles_set: "hasAllRoles s rs = (set rs \<subseteq> set (userRoles s))"
  by (auto simp: hasAllRoles_def hasRole_def list_all_iff)

subsection \<open>Facts about the sample sessions\<close>

lemma isAuthenticated_signedIn: "isAuthenticated (signedIn rs ps)"
  by (simp add: isAuthenticated_def signedIn_def)

lemma userRoles_signedIn: "userRoles (signedIn rs ps) = rs"
  by (simp add: userRoles_def signedIn_def sample_user_def)

lemma userPermissions_signedIn: "userPermissions (signedIn rs ps) = ps"
  by (simp add: userPermissions_def signedIn_def sample_user_def)

lemma not_isAuthenticated_init: "\<not> isAuthenticated (init fs)"
  by (simp add: isAuthenticated_def init_def)

lemma settling_apply: "settling n s t k = (if k < n then s else t)"
  by (simp add: settling_def)


subsection \<open>The role guard\<close>

text \<open>
  Claim C1. Whatever the route data and the session, \<open>roleGuard\<close> redirects to
  \<^verbatim>\<open>/login\<close> when the session is not authenticated; when it is authenticated and the
  list of required roles is absent or empty (also with \<^verbatim>\<open>requireAll: true\<close>) it allows;
  otherwise it allows exactly when \<^verbatim>\<open>requireAll\<close> is true and every required role is
  among the session's roles, or \<^verbatim>\<open>requireAll\<close> is false or absent and some required role
  is among them, and redirects to \<^verbatim>\<open>/unauthorized\<close> if not.
\<close>

theorem roleGuard_decision:
  "(\<not> isAuthenticated s \<longrightarrow> roleGuard rd s = Redirect [''/login''] []) \<and>
   (isAuthenticated s \<and> (rd_roles rd = None \<or> rd_roles rd = Some []) \<longrightarrow> roleGuard rd s = Allow) \<and>
   (isAuthenticated s \<and> rd_roles rd = Some rs \<and> rs \<noteq> [] \<longrightarrow>
      roleGuard rd s =
        (if (rd_requireAll rd = Some True \<and> set rs \<subseteq> set (userRoles s)) \<or>
            (rd_requireAll rd \<noteq> Some True \<and> set rs \<inter> set (userRoles s) \<noteq> {})
         then Allow else Redirect [''/unauthorized''] []))"
proof (intro conjI impI)
  assume "\<not> isAuthenticated s"
  then show "roleGuard rd s = Redirect [''/login''] []"
    by (simp add: roleGuard_def)
next
  assume "isAuthenticated s \<and> (rd_roles rd = None \<or> rd_roles rd = Some [])"
  then show "roleGuard rd s = Allow"
    by (auto simp: roleGuard_def)
next
  assume a: "isAuthenticated s \<and> rd_roles rd = Some rs \<and> rs \<noteq> []"
  show "roleGuard rd s =
        (if (rd_requireAll rd = Some True \<and> set rs \<subseteq> set (userRoles s)) \<or>
            (rd_requireAll rd \<noteq> Some True \<and> set rs \<inter> set (userRoles s) \<noteq> {})
         then Allow else Redirect [''/unauthorized''] [])"
  proof (cases "rd_requireAll rd")
    case None
    with a show ?thesis by (simp add: roleGuard_def hasAnyRole_set)
  next
    case (Some b)
    with a show ?thesis by (cases b) (simp_all add: roleGuard_def hasAnyRole_set hasAllRoles_set)
  qed
qed

text \<open>
  The instances named in the specification: required \<open>{admin}\<close> with ANY semantics
  against the roles \<open>{moderator}\<close> and \<open>{admin, user}\<close>; an empty list with
  \<^verbatim>\<open>requireAll: true\<close>; absent route data; an ALL check that fails; no session.
\<close>

theorem roleGuard_decision_witness:
  "roleGuard \<lparr>rd_roles = Some [admin], rd_permissions = None, rd_requireAll = Some False\<rparr>
     (signedIn [moderator] [''read'']) = Redirect [''/unauthorized''] [] \<and>
   roleGuard \<lparr>rd_roles = Some [admin], rd_permissions = None, rd_requireAll = Some False\<rparr>
     (signedIn [admin, user] [''read'']) = Allow \<and>
   roleGuard \<lparr>rd_roles = Some [], rd_permissions = None, rd_requireAll = Some True\<rparr>
     (signedIn [user] [''read'']) = Allow \<and>
   roleGuard \<lparr>rd_roles = None, rd_permissions = None, rd_requireAll = None\<rparr>
     (signedIn [user] [''read'']) = Allow \<and>
   roleGuard \<lparr>rd_roles = Some [admin, moderator], rd_permissions = None, rd_requireAll = Some True\<rparr>
     (signedIn [admin, user] [''read'']) = Redirect [''/unauthorized''] [] \<and>
   roleGuard \<lparr>rd_roles = Some [admin], rd_permissions = None, rd_requireAll = Some False\<rparr>
     (init Map.empty) = Redirect [''/login''] []"
  using
    roleGuard_decision [of "signedIn [moderator] [''read'']"
      "\<lparr>rd_roles = Some [admin], rd_permissions = None, rd_requireAll = Some False\<rparr>" "[admin]"]
    roleGuard_decision [of "signedIn [admin, user] [''read'']"
      "\<lparr>rd_roles = Some [admin], rd_permissions = None, rd_requireAll = Some False\<rparr>" "[admin]"]
    roleGuard_decision [of "signedIn [user] [''read'']"
      "\<lparr>rd_roles = Some [], rd_permissions = None, rd_requireAll = Some True\<rparr>" "[]"]
    roleGuard_decision [of "signedIn [user] [''read'']"
      "\<lparr>rd_roles = None, rd_permissions = None, rd_requireAll = None\<rparr>" "[]"]
    roleGuard_decision [of "signedIn [admin, user] [''read'']"
      "\<lparr>rd_roles = Some [admin, moderator], rd_permissions = None, rd_requireAll = Some True\<rparr>"
      "[admin, moderator]"]
    roleGuard_decision [of "init Map.empty"
      "\<lparr>rd_roles = Some [admin], rd_permissions = None, rd_requireAll = Some False\<rparr>" "[admin]"]
  by (simp add: isAuthenticated_signedIn userRoles_signedIn not_isAuthenticated_init)

subsection \<open>Derived queries without a profile\<close>

text \<open>
  Claim C10. When \<open>currentUser\<close> is null, \<open>userRoles\<close> and \<open>userPermissions\<close> are
  empty, \<open>hasRole\<close>, \<open>hasAnyRole\<close>, \<open>hasPermission\<close> and \<open>hasAnyPermission\<close> are
  false for every argument, and \<open>hasAllRoles rs\<close> holds only for the empty list.
\<close>

theorem no_profile_queries:
  assumes "currentUser s = None"
  shows "userRoles s = [] \<and> userPermissions s = [] \<and>
         \<not> hasRole s r \<and> \<not> hasAnyRole s rs \<and> \<not> hasPermission s p \<and> \<not> hasAnyPermission s ps \<and>
         (hasAllRoles s rs \<longleftrightarrow> rs = [])"
proof -
  from assms have r: "userRoles s = []" and p: "userPermissions s = []"
    by (simp_all add: userRoles_def userPermissions_def)
  have "hasAllRoles s rs \<longleftrightarrow> rs = []"
    by (cases rs) (simp_all add: hasAllRoles_def hasRole_def r)
  moreover have "\<not> hasAnyRole s rs"
    by (simp add: hasAnyRole_def hasRole_def r list_ex_iff)
  moreover have "\<not> hasAnyPermission s ps"
    by (simp add: hasAnyPermission_def hasPermission_def p list_ex_iff)
  ultimately show ?thesis
    by (simp add: r p hasRole_def hasPermission_def)
qed

theorem no_profile_queries_witness:
  "currentUser (init Map.empty) = None \<and>
   userRoles (init Map.empty) = [] \<and> userPermissions (init Map.empty) = [] \<and>
   \<not> hasRole (init Map.empty) admin \<and> \<not> hasAnyRole (init Map.empty) [admin, user] \<and>
   \<not> hasPermission (init Map.empty) ''read'' \<and> \<not> hasAnyPermission (init Map.empty) [''read''] \<and>
   \<not> hasAllRoles (init Map.empty) [user] \<and> hasAllRoles (init Map.empty) []"
proof -
  have h: "currentUser (init Map.empty) = None" by (simp add: init_def)
  from no_profile_queries [OF h, of admin "[admin, user]" "''read''" "[''read'']"]
       no_profile_queries [OF h, of admin "[user]" "''read''" "[''read'']"]
       no_profile_queries [OF h, of admin "[]" "''read''" "[''read'']"]
  show ?thesis using h by simp
qed

subsection \<open>The guard factories\<close>

text \<open>
  Claim C9, amended. For every non-empty role list the guard made by \<open>requireRoles\<close>
  decides as \<open>roleGuard\<close> does on that list with \<^verbatim>\<open>requireAll: false\<close>, and for every
  non-empty permission list \<open>requirePermissions\<close> decides as \<open>permissionGuard\<close> does;
  both ignore the route data, and both redirect an unauthenticated session to
  \<^verbatim>\<open>/login\<close>.
\<close>

theorem factory_guards_eq_nonempty:
  "(rs \<noteq> [] \<longrightarrow>
      requireRoles rs rd s =
        roleGuard \<lparr>rd_roles = Some rs, rd_permissions = rd_permissions rd, rd_requireAll = Some False\<rparr> s) \<and>
   (ps \<noteq> [] \<longrightarrow>
      requirePermissions ps rd s =
        permissionGuard \<lparr>rd_roles = rd_roles rd, rd_permissions = Some ps, rd_requireAll = Some False\<rparr> s) \<and>
   requireRoles rs rd s = requireRoles rs rd' s \<and>
   requirePermissions ps rd s = requirePermissions ps rd' s \<and>
   (\<not> isAuthenticated s \<longrightarrow>
      requireRoles rs rd s = Redirect [''/login''] [] \<and>
      requirePermissions ps rd s = Redirect [''/login''] [])"
  by (cases rs; cases ps)
     (simp_all add: requireRoles_def requirePermissions_def roleGuard_def permissionGuard_def)

theorem factory_guards_eq_nonempty_witness:
  "requireRoles [admin, moderator] \<lparr>rd_roles = Some [guest], rd_permissions = None, rd_requireAll = Some True\<rparr>
     (signedIn [moderator] [''read'']) = Allow \<and>
   roleGuard \<lparr>rd_roles = Some [admin, moderator], rd_permissions = None, rd_requireAll = Some False\<rparr>
     (signedIn [moderator] [''read'']) = Allow \<and>
   requirePermissions [''write''] \<lparr>rd_roles = Some [guest], rd_permissions = None, rd_requireAll = Some True\<rparr>
     (signedIn [moderator] [''read'']) = Redirect [''/unauthorized''] [] \<and>
   permissionGuard \<lparr>rd_roles = Some [guest], rd_permissions = Some [''write''], rd_requireAll = Some False\<rparr>
     (signedIn [moderator] [''read'']) = Redirect [''/unauthorized''] [] \<and>
   requireRoles [admin] \<lparr>rd_roles = None, rd_permissions = None, rd_requireAll = None\<rparr>
     (init Map.empty) = Redirect [''/login''] []"
  using
    factory_guards_eq_nonempty [of "[admin, moderator]"
      "\<lparr>rd_roles = Some [guest], rd_permissions = None, rd_requireAll = Some True\<rparr>"
      "signedIn [moderator] [''read'']" "[''write'']"]
    factory_guards_eq_nonempty [of "[admin]"
      "\<lparr>rd_roles = None, rd_permissions = None, rd_requireAll = None\<rparr>"
      "init Map.empty" "[''write'']"]
  by (simp add: requireRoles_def requirePermissions_def isAuthenticated_signedIn not_isAuthenticated_init
        hasAnyRole_set hasAnyPermission_def hasPermission_def userRoles_signedIn userPermissions_signedIn)

text \<open>
  Claim C9 as stated fails on the empty list: \<^verbatim>\<open>requireRoles()\<close> sends an authenticated
  session to \<^verbatim>\<open>/unauthorized\<close>, where \<open>roleGuard\<close> with an empty list allows.
\<close>

theorem factory_guards_empty_list_counterexample:
  "requireRoles [] \<lparr>rd_roles = None, rd_permissions = None, rd_requireAll = None\<rparr>
     (signedIn [user] [''read'']) = Redirect [''/unauthorized''] [] \<and>
   roleGuard \<lparr>rd_roles = Some [], rd_permissions = None, rd_requireAll = Some False\<rparr>
     (signedIn [user] [''read'']) = Allow"
  by (simp add: requireRoles_def roleGuard_def isAuthenticated_signedIn hasAnyRole_def)

subsection \<open>The authentication guards\<close>

text \<open>
  The poll returns the decision taken on the first snapshot that is not loading, and
  never returns when every snapshot is loading.
\<close>

lemma checkAuth_first_settled:
  assumes "\<not> isLoading (ticks (m + j))" and "\<forall>k<j. isLoading (ticks (m + k))"
  shows "checkAuth ticks url m =
           Some (if isAuthenticated (ticks (m + j)) then Allow
                 else Redirect [''/login''] [(''returnUrl'', url)])"
  using assms
proof (induction j arbitrary: m)
  case 0
  then show ?case by (subst checkAuth.simps) simp
next
  case (Suc j)
  from Suc.prems(2) have now: "isLoading (ticks m)" by (metis add.right_neutral zero_less_Suc)
  have later: "\<forall>k<j. isLoading (ticks (Suc m + k))"
    using Suc.prems(2) by (metis Suc_less_eq add_Suc_shift)
  from Suc.prems(1) have settled: "\<not> isLoading (ticks (Suc m + j))" by simp
  have "checkAuth ticks url m = checkAuth ticks url (Suc m)"
    using now by (subst checkAuth.simps) simp
  also have "\<dots> = Some (if isAuthenticated (ticks (Suc m + j)) then Allow
                        else Redirect [''/login''] [(''returnUrl'', url)])"
    by (rule Suc.IH [OF settled later])
  finally show ?case by simp
qed

lemma checkAuth_pending:
  assumes "\<forall>k. isLoading (ticks k)"
  shows "checkAuth ticks url m = None"
proof (rule ccontr)
  assume "checkAuth ticks url m \<noteq> None"
  then obtain r where "checkAuth ticks url m = Some r" by auto
  then have "\<exists>k. \<not> isLoading (ticks k)"
  proof (induction rule: checkAuth.raw_induct [rotated 1, consumes 1])
    case (1 f ticks' url' n r')
    then show ?case by (auto split: if_splits)
  qed
  with assms show False by simp
qed

text \<open>
  Claim C2. Let \<open>obs 0\<close> be the service when \<open>authGuard\<close> is called and \<open>obs (k + 1)\<close>
  the service at the \<open>k\<close>-th run of the polling callback. If \<open>obs n\<close> is the first
  of these that is not loading, the guard decides there and only there: it allows when
  \<open>obs n\<close> is authenticated and otherwise redirects to \<^verbatim>\<open>/login\<close> with \<^verbatim>\<open>returnUrl\<close>
  set to the requested URL.
\<close>

theorem authGuard_decides_when_settled:
  assumes "\<not> isLoading (obs n)" and "\<forall>k<n. isLoading (obs k)"
  shows "authGuard url (obs 0) (\<lambda>k. obs (Suc k)) =
           Some (if isAuthenticated (obs n) then Allow
                 else Redirect [''/login''] [(''returnUrl'', url)])"
proof (cases n)
  case 0
  with assms(1) show ?thesis by (simp add: authGuard_def)
next
  case (Suc j)
  with assms have first: "isLoading (obs 0)" by simp
  have settled: "\<not> isLoading ((\<lambda>k. obs (Suc k)) (0 + j))" using assms(1) Suc by simp
  have before: "\<forall>k<j. isLoading ((\<lambda>k. obs (Suc k)) (0 + k))" using assms(2) Suc by simp
  show ?thesis
    using first checkAuth_first_settled [OF settled before, of url] Suc
    by (simp add: authGuard_def)
qed

text \<open>While the service keeps loading the guard has not decided.\<close>

lemma authGuard_pending:
  assumes "\<forall>k. isLoading (obs k)"
  shows "authGuard url (obs 0) (\<lambda>k. obs (Suc k)) = None"
  using assms by (simp add: authGuard_def checkAuth_pending)

text \<open>
  On a service that is not loading, \<open>authMatchGuard\<close> decides as \<open>authGuard\<close> does for
  the URL made of the segments.
\<close>

lemma authMatchGuard_settled:
  assumes "\<not> isLoading s"
  shows "authGuard (''/'' @ join ''/'' segments) s ticks = Some (authMatchGuard segments s)"
  using assms by (simp add: authGuard_def authMatchGuard_def)

text \<open>
  A settled session at the call; a session that settles as authenticated at the third
  run of the callback; one that settles as anonymous there.
\<close>

theorem authGuard_decides_when_settled_witness:
  "authGuard ''/dashboard'' (signedIn [user] [''read''])
     (settling 0 (init Map.empty) (init Map.empty)) = Some Allow \<and>
   authGuard ''/dashboard'' (init Map.empty)
     (settling 2 (init Map.empty) (signedIn [user] [''read''])) = Some Allow \<and>
   authGuard ''/dashboard'' (init Map.empty)
     (settling 2 (init Map.empty) ((init Map.empty)\<lparr>loading := False\<rparr>)) =
     Some (Redirect [''/login''] [(''returnUrl'', ''/dashboard'')])"
proof -
  let ?a = "case_nat (signedIn [user] [''read'']) (settling 0 (init Map.empty) (init Map.empty))"
  let ?b = "case_nat (init Map.empty) (settling 2 (init Map.empty) (signedIn [user] [''read'']))"
  let ?c = "case_nat (init Map.empty)
              (settling 2 (init Map.empty) ((init Map.empty)\<lparr>loading := False\<rparr>))"
  have settled: "\<not> isLoading (signedIn [user] [''read''])"
                "\<not> isLoading ((init Map.empty)\<lparr>loading := False\<rparr>)"
    and waiting: "isLoading (init Map.empty)"
    and anonymous: "\<not> isAuthenticated ((init Map.empty)\<lparr>loading := False\<rparr>)"
    by (simp_all add: isLoading_def signedIn_def init_def isAuthenticated_def)
  have before: "\<forall>k<3. isLoading (?b k)" "\<forall>k<3. isLoading (?c k)"
    using waiting by (auto simp: settling_apply split: nat.splits)
  have a: "authGuard ''/dashboard'' (?a 0) (\<lambda>k. ?a (Suc k)) = Some Allow"
    using authGuard_decides_when_settled [of ?a 0 "''/dashboard''"] settled
    by (simp add: isAuthenticated_signedIn)
  have b: "authGuard ''/dashboard'' (?b 0) (\<lambda>k. ?b (Suc k)) = Some Allow"
    using authGuard_decides_when_settled [of ?b 3 "''/dashboard''"] settled before
    by (simp add: isAuthenticated_signedIn settling_apply)
  have c: "authGuard ''/dashboard'' (?c 0) (\<lambda>k. ?c (Suc k)) =
             Some (Redirect [''/login''] [(''returnUrl'', ''/dashboard'')])"
    using authGuard_decides_when_settled [of ?c 3 "''/dashboard''"] settled before anonymous
    by (simp add: settling_apply)
  from a b c show ?thesis
    by simp
qed

text \<open>
  Claim C6 on the code. At application start (\<open>init\<close>: loading, no user yet) with a
  provider session that the first event reconciles, \<open>authGuard\<close> waits and allows, while
  \<open>authMatchGuard\<close> does not wait and redirects to \<^verbatim>\<open>/login\<close>.
\<close>

theorem authMatchGuard_does_not_wait:
  "authGuard ''/admin'' (init Map.empty)
     (settling 2 (init Map.empty) (signedIn [admin] [''read''])) = Some Allow \<and>
   authMatchGuard [''admin''] (init Map.empty) = Redirect [''/login''] [(''returnUrl'', ''/admin'')]"
proof -
  have settled: "\<not> isLoading (settling 2 (init Map.empty) (signedIn [admin] [''read'']) (0 + 2))"
    and before: "\<forall>k<2. isLoading (settling 2 (init Map.empty) (signedIn [admin] [''read'']) (0 + k))"
    by (simp_all add: settling_apply isLoading_def signedIn_def init_def)
  have auth: "isAuthenticated (settling 2 (init Map.empty) (signedIn [admin] [''read'']) (0 + 2))"
    by (simp add: settling_apply isAuthenticated_signedIn)
  have "checkAuth (settling 2 (init Map.empty) (signedIn [admin] [''read''])) ''/admin'' 0 =
               Some Allow"
    using checkAuth_first_settled [OF settled before, of "''/admin''"] auth
    by (simp only: if_True)
  then show ?thesis
    by (simp add: authGuard_def authMatchGuard_def isLoading_def init_def isAuthenticated_def)
qed

subsection \<open>Logout\<close>

text \<open>The listener on a null event.\<close>

lemma onAuthStateChanged_None:
  "onAuthStateChanged env None s = s\<lparr>firebaseUser := None, currentUser := None, loading := False\<rparr>"
  by (simp add: onAuthStateChanged_def)

text \<open>
  Claim C3, amended. \<open>logout\<close> never reports an error to its caller. When the provider's
  sign-out succeeds, the current user and the raw identity are cleared, so the session is
  not authenticated afterwards, the router is sent to \<^verbatim>\<open>/login\<close> and nothing is logged.
  When the sign-out throws, the error is swallowed: it is written to the console and to
  nothing else (\<open>authError\<close> and \<open>loading\<close> keep their values), and the current user,
  the raw identity and the router are left as they were, so the session is authenticated
  afterwards exactly when it was before.
\<close>

theorem logout_clears_on_success_only:
  "fst (logout env s) = Inr () \<and>
   isAuthenticated (snd (logout env s)) = (signOut env \<noteq> None \<and> isAuthenticated s) \<and>
   (signOut env = None \<longrightarrow>
      currentUser (snd (logout env s)) = None \<and> firebaseUser (snd (logout env s)) = None \<and>
      router (snd (logout env s)) = router s @ [[''/login'']] \<and>
      console (snd (logout env s)) = console s) \<and>
   (signOut env \<noteq> None \<longrightarrow>
      currentUser (snd (logout env s)) = currentUser s \<and>
      firebaseUser (snd (logout env s)) = firebaseUser s \<and>
      router (snd (logout env s)) = router s) \<and>
   (\<forall>e. signOut env = Some e \<longrightarrow>
      console (snd (logout env s)) = console s @ [(''Logout error:'', e)] \<and>
      loading (snd (logout env s)) = loading s \<and>
      authError (snd (logout env s)) = authError s)"
proof (cases "signOut env")
  case None
  then show ?thesis
    by (cases "listenerFirst env")
       (simp_all add: logout_def withAuthStateChange_def onAuthStateChanged_None isAuthenticated_def)
next
  case (Some e)
  then show ?thesis
    by (simp add: logout_def isAuthenticated_def)
qed

text \<open>A signed-in session, with a sign-out that succeeds and one that throws.\<close>

theorem logout_clears_on_success_only_witness:
  "\<not> isAuthenticated (snd (logout provider_ok (signedIn [user] [''read'']))) \<and>
   currentUser (snd (logout provider_ok (signedIn [user] [''read'']))) = None \<and>
   firebaseUser (snd (logout provider_ok (signedIn [user] [''read'']))) = None \<and>
   router (snd (logout provider_ok (signedIn [user] [''read'']))) = [[''/login'']] \<and>
   console (snd (logout provider_ok (signedIn [user] [''read'']))) = [] \<and>
   firebaseUser (snd (logout (provider_ok\<lparr>signOut := Some network_error\<rparr>) (signedIn [user] [''read''])))
     = Some sample_firebaseUser \<and>
   router (snd (logout (provider_ok\<lparr>signOut := Some network_error\<rparr>) (signedIn [user] [''read'']))) = [] \<and>
   console (snd (logout (provider_ok\<lparr>signOut := Some network_error\<rparr>) (signedIn [user] [''read''])))
     = [(''Logout error:'', network_error)] \<and>
   fst (logout (provider_ok\<lparr>signOut := Some network_error\<rparr>) (signedIn [user] [''read''])) = Inr ()"
  using logout_clears_on_success_only [of provider_ok "signedIn [user] [''read'']"]
        logout_clears_on_success_only [of "provider_ok\<lparr>signOut := Some network_error\<rparr>"
                                          "signedIn [user] [''read'']"]
  by (simp add: provider_ok_def signedIn_def)

text \<open>
  Claim C3 as stated fails: on an authenticated session whose sign-out throws, the
  session is still authenticated after \<open>logout\<close>; the error is in the console.
\<close>

theorem logout_failure_counterexample:
  "signOut (provider_ok\<lparr>signOut := Some network_error\<rparr>) = Some network_error \<and>
   isAuthenticated (snd (logout (provider_ok\<lparr>signOut := Some network_error\<rparr>)
                                (signedIn [user] [''read'']))) \<and>
   console (snd (logout (provider_ok\<lparr>signOut := Some network_error\<rparr>)
                        (signedIn [user] [''read''])))
     = [(''Logout error:'', network_error)]"
  by (simp add: logout_def isAuthenticated_def signedIn_def)


subsection \<open>Reconciliation in the listener\<close>

text \<open>
  Claim C4, amended. When the listener receives an identity and the fetch or the creation
  of the profile throws, the profile becomes null, the session is not authenticated,
  \<open>loading\<close> is false, the error is written to the console, \<open>authError\<close> and the store
  are unchanged, and the raw identity is the one the provider pushed (it is not cleared).
\<close>

theorem listener_fails_closed:
  assumes "reconcile env (s\<lparr>firebaseUser := Some fu\<rparr>) fu = Inl e"
  shows "currentUser (onAuthStateChanged env (Some fu) s) = None \<and>
         \<not> isAuthenticated (onAuthStateChanged env (Some fu) s) \<and>
         loading (onAuthStateChanged env (Some fu) s) = False \<and>
         firebaseUser (onAuthStateChanged env (Some fu) s) = Some fu \<and>
         authError (onAuthStateChanged env (Some fu) s) = authError s \<and>
         console (onAuthStateChanged env (Some fu) s) =
           console s @ [(''Error fetching user profile:'', e)] \<and>
         firestore (onAuthStateChanged env (Some fu) s) = firestore s"
  using assms by (simp add: onAuthStateChanged_def isAuthenticated_def)

text \<open>
  The two ways in which the body of the \<^verbatim>\<open>try\<close> block throws: the fetch, and the
  creation at a first login. The instances below take one of each.
\<close>

lemma reconcile_getDoc_fails:
  "getDoc env = Some e \<Longrightarrow> reconcile env s fu = Inl e"
  by (simp add: reconcile_def getUserProfile_def)

lemma reconcile_setDoc_fails:
  "getDoc env = None \<Longrightarrow> firestore s (fu_uid fu) = None \<Longrightarrow> setDoc env = Some e \<Longrightarrow>
   reconcile env s fu = Inl e"
  by (simp add: reconcile_def getUserProfile_def createUserProfile_def)

theorem listener_fails_closed_witness:
  "reconcile (provider_ok\<lparr>getDoc := Some network_error\<rparr>)
     ((signedIn [admin] [''read''])\<lparr>firebaseUser := Some sample_firebaseUser\<rparr>) sample_firebaseUser
     = Inl network_error \<and>
   currentUser (onAuthStateChanged (provider_ok\<lparr>getDoc := Some network_error\<rparr>)
                  (Some sample_firebaseUser) (signedIn [admin] [''read''])) = None \<and>
   \<not> isAuthenticated (onAuthStateChanged (provider_ok\<lparr>getDoc := Some network_error\<rparr>)
                  (Some sample_firebaseUser) (signedIn [admin] [''read''])) \<and>
   console (onAuthStateChanged (provider_ok\<lparr>getDoc := Some network_error\<rparr>)
                  (Some sample_firebaseUser) (signedIn [admin] [''read'']))
     = [(''Error fetching user profile:'', network_error)] \<and>
   reconcile (provider_ok\<lparr>setDoc := Some network_error\<rparr>)
     ((init Map.empty)\<lparr>firebaseUser := Some sample_firebaseUser\<rparr>) sample_firebaseUser
     = Inl network_error \<and>
   \<not> isAuthenticated (onAuthStateChanged (provider_ok\<lparr>setDoc := Some network_error\<rparr>)
                  (Some sample_firebaseUser) (init Map.empty)) \<and>
   \<not> loading (onAuthStateChanged (provider_ok\<lparr>setDoc := Some network_error\<rparr>)
                  (Some sample_firebaseUser) (init Map.empty)) \<and>
   firestore (onAuthStateChanged (provider_ok\<lparr>setDoc := Some network_error\<rparr>)
                  (Some sample_firebaseUser) (init Map.empty)) ''u1'' = None"
proof -
  have fetch: "reconcile (provider_ok\<lparr>getDoc := Some network_error\<rparr>)
     ((signedIn [admin] [''read''])\<lparr>firebaseUser := Some sample_firebaseUser\<rparr>) sample_firebaseUser
     = Inl network_error"
    by (rule reconcile_getDoc_fails) simp
  have create: "reconcile (provider_ok\<lparr>setDoc := Some network_error\<rparr>)
     ((init Map.empty)\<lparr>firebaseUser := Some sample_firebaseUser\<rparr>) sample_firebaseUser
     = Inl network_error"
    by (rule reconcile_setDoc_fails) (simp_all add: provider_ok_def init_def)
  from listener_fails_closed [OF fetch] listener_fails_closed [OF create] fetch create
  show ?thesis
    by (simp add: signedIn_def init_def)
qed

text \<open>
  Claim C4 as stated fails: after a fetch that throws, the raw identity is still set and
  no error is recorded in \<open>authError\<close>.
\<close>

theorem listener_keeps_identity_counterexample:
  "reconcile (provider_ok\<lparr>getDoc := Some network_error\<rparr>)
     ((init Map.empty)\<lparr>firebaseUser := Some sample_firebaseUser\<rparr>) sample_firebaseUser
     = Inl network_error \<and>
   firebaseUser (onAuthStateChanged (provider_ok\<lparr>getDoc := Some network_error\<rparr>)
                   (Some sample_firebaseUser) (init Map.empty)) = Some sample_firebaseUser \<and>
   authError (onAuthStateChanged (provider_ok\<lparr>getDoc := Some network_error\<rparr>)
                   (Some sample_firebaseUser) (init Map.empty)) = None"
  by (simp add: reconcile_getDoc_fails onAuthStateChanged_def init_def)

subsection \<open>Errors, settling and the listener\<close>

text \<open>\<open>handleAuthError\<close> and \<open>settle\<close> in terms of the error table.\<close>

lemma handleAuthError_result:
  "(handleAuthError s e :: (string + 'a) \<times> AuthService) =
     (Inl (errorMessage e), s\<lparr>loading := False, authError := Some (errorMessage e)\<rparr>)"
proof (cases "code e")
  case None
  then show ?thesis
    by (cases "message e")
       (simp_all add: handleAuthError_def errorMessage_def fallbackMessage_def Let_def)
next
  case (Some c)
  then show ?thesis
    by (cases "message e")
       (simp_all add: handleAuthError_def errorMessage_def errorTable_def fallbackMessage_def Let_def)
qed

lemma map_of_errorTable_fixed:
  "map_of errorTable c = Some m \<Longrightarrow> m \<in> set fixedMessages"
  by (auto simp: fixedMessages_def dest: map_of_SomeD intro: image_eqI [where x = "(c, m)"])

lemma errorMessage_cases:
  "errorMessage e \<in> set fixedMessages \<or>
     (Option.bind (code e) (map_of errorTable) = None \<and> message e = Some (errorMessage e))"
proof (cases "Option.bind (code e) (map_of errorTable)")
  case None
  then show ?thesis
    by (cases "message e") (simp_all add: errorMessage_def fixedMessages_def)
next
  case (Some fixed)
  then obtain c where "map_of errorTable c = Some fixed"
    by (cases "code e") auto
  with Some show ?thesis
    by (simp add: errorMessage_def map_of_errorTable_fixed)
qed

lemma settle_Inl:
  "settle (Inl e, s) = (Inl (errorMessage e), s\<lparr>loading := False, authError := Some (errorMessage e)\<rparr>)"
  by (simp add: settle_def handleAuthError_result)

lemma settle_Inr: "settle (Inr p, s) = (Inr p, s\<lparr>loading := False\<rparr>)"
  by (simp add: settle_def)

text \<open>The listener leaves \<open>authError\<close> alone, clears \<open>loading\<close> and sets the identity.\<close>

lemma reconcile_frame:
  "reconcile env s fu = Inr s' \<Longrightarrow>
   authError s' = authError s \<and> firebaseUser s' = firebaseUser s \<and> loading s' = loading s \<and>
   router s' = router s"
  by (auto simp: reconcile_def createUserProfile_def Let_def split: sum.splits option.splits)

lemma onAuthStateChanged_frame:
  "authError (onAuthStateChanged env x s) = authError s \<and>
   firebaseUser (onAuthStateChanged env x s) = x \<and>
   loading (onAuthStateChanged env x s) = False \<and>
   router (onAuthStateChanged env x s) = router s"
proof (cases x)
  case None
  then show ?thesis by (simp add: onAuthStateChanged_def)
next
  case (Some fu)
  show ?thesis
  proof (cases "reconcile env (s\<lparr>firebaseUser := Some fu\<rparr>) fu")
    case (Inl e)
    with Some show ?thesis by (simp add: onAuthStateChanged_def)
  next
    case (Inr s')
    with Some reconcile_frame [OF Inr] show ?thesis by (simp add: onAuthStateChanged_def)
  qed
qed

text \<open>
  A first login whose store calls succeed creates the default profile; what the listener
  adopts and stores does not depend on \<open>loading\<close> and \<open>authError\<close>.
\<close>

lemma onAuthStateChanged_first_login:
  assumes "getDoc env = None" and "setDoc env = None" and "firestore s (fu_uid fu) = None"
  shows "isAuthenticated (onAuthStateChanged env (Some fu) s) \<and>
         map_option roles (currentUser (onAuthStateChanged env (Some fu) s)) = Some [user] \<and>
         map_option permissions (currentUser (onAuthStateChanged env (Some fu) s)) = Some [''read''] \<and>
         map_option up_roles (firestore (onAuthStateChanged env (Some fu) s) (fu_uid fu)) = Some (Some [user]) \<and>
         map_option up_permissions (firestore (onAuthStateChanged env (Some fu) s) (fu_uid fu)) =
           Some (Some [''read''])"
  using assms
  by (simp add: onAuthStateChanged_def reconcile_def getUserProfile_def createUserProfile_def
        Let_def stored_def isAuthenticated_def)

lemma onAuthStateChanged_ignores_flags:
  "currentUser (onAuthStateChanged env x (s\<lparr>loading := a, authError := b\<rparr>)) =
     currentUser (onAuthStateChanged env x s) \<and>
   firestore (onAuthStateChanged env x (s\<lparr>loading := a, authError := b\<rparr>)) =
     firestore (onAuthStateChanged env x s)"
  by (cases x)
     (auto simp: onAuthStateChanged_def reconcile_def getUserProfile_def createUserProfile_def
        Let_def split: sum.splits option.splits)

text \<open>
  \<open>withAuthStateChange\<close> puts the listener's work before \<open>settle\<close> also when it comes
  after the rest of the operation. That loses nothing: the listener and the error handler
  commute, and so do the listener and the \<^verbatim>\<open>tap\<close>.
\<close>

lemma onAuthStateChanged_commutes:
  "onAuthStateChanged env x (s\<lparr>loading := False, authError := m\<rparr>) =
     (onAuthStateChanged env x s)\<lparr>loading := False, authError := m\<rparr>"
  "onAuthStateChanged env x (s\<lparr>loading := False\<rparr>) = (onAuthStateChanged env x s)\<lparr>loading := False\<rparr>"
  by (cases x;
      auto simp: onAuthStateChanged_def reconcile_def getUserProfile_def createUserProfile_def
        Let_def split: sum.splits option.splits)+


subsection \<open>Login\<close>

text \<open>
  A failing operation writes nothing before it fails, so in either order the service
  after a failed attempt is the service as the listener alone leaves it.
\<close>

lemma handleAuthSuccess_frame:
  "handleAuthSuccess env s fu = Inr (p, s') \<Longrightarrow>
   authError s' = authError s \<and> firebaseUser s' = firebaseUser s \<and> loading s' = loading s"
  by (auto simp: handleAuthSuccess_def createUserProfile_def Let_def
           split: sum.splits option.splits)

lemma login_attempt_rejected:
  "signInWithEmailAndPassword env em pw = Inl e \<Longrightarrow> login_attempt env em pw s1 = (Inl e, s1)"
  by (simp add: login_attempt_def)

lemma login_attempt_failed_later:
  assumes "signInWithEmailAndPassword env em pw = Inr fu"
    and "login_attempt env em pw s1 = (Inl e, s2)"
  shows "s2 = onAuthStateChanged env (Some fu) s1"
  using assms
  by (cases "listenerFirst env")
     (auto simp: login_attempt_def withAuthStateChange_def split: sum.splits prod.splits)

lemma login_attempt_authError:
  "login_attempt env em pw s1 = (r, s2) \<Longrightarrow> authError s2 = authError s1"
proof (cases "signInWithEmailAndPassword env em pw")
  case (Inl e)
  assume "login_attempt env em pw s1 = (r, s2)"
  with Inl show ?thesis by (simp add: login_attempt_def)
next
  case (Inr fu)
  assume a: "login_attempt env em pw s1 = (r, s2)"
  show ?thesis
  proof (cases "listenerFirst env")
    case True
    with a Inr show ?thesis
      by (auto simp: login_attempt_def withAuthStateChange_def onAuthStateChanged_frame
               dest: handleAuthSuccess_frame split: sum.splits)
  next
    case False
    with a Inr show ?thesis
      by (auto simp: login_attempt_def withAuthStateChange_def onAuthStateChanged_frame
               dest: handleAuthSuccess_frame split: sum.splits)
  qed
qed

text \<open>
  Claim C7, amended. \<open>login\<close> is its synchronous part, which sets \<open>loading\<close> and clears
  \<open>authError\<close>, followed by the attempt and its settling; \<open>loading\<close> is false once it has
  settled, on success and on failure, and after a success \<open>authError\<close> is still clear.
  When the attempt fails with the error \<open>e\<close>, \<open>login\<close> reports a message and stores it
  in \<open>authError\<close>: the fixed message of the table when \<^verbatim>\<open>e.code\<close> is one of the eight
  codes of the table, and otherwise the raw \<^verbatim>\<open>e.message\<close>, or the fixed fallback message
  when that is missing or empty. When it is the provider's sign-in that rejects, the
  current user, the raw identity and the store are unchanged, so an anonymous session
  stays anonymous. When the sign-in resolves and a later step fails, the raw identity is
  the signed-in user and the current user and the store are as the listener leaves them
  for that user.
\<close>

theorem login_failure:
  "login env em pw s = settle (login_attempt env em pw (login_begin s)) \<and>
   loading (login_begin s) = True \<and> authError (login_begin s) = None \<and>
   loading (snd (login env em pw s)) = False \<and>
   (\<forall>p. fst (login env em pw s) = Inr p \<longrightarrow> authError (snd (login env em pw s)) = None) \<and>
   (\<forall>e s2. login_attempt env em pw (login_begin s) = (Inl e, s2) \<longrightarrow>
      (\<exists>m. fst (login env em pw s) = Inl m \<and>
            authError (snd (login env em pw s)) = Some m \<and>
            m = (case Option.bind (code e) (map_of errorTable) of
                   Some fixed \<Rightarrow> fixed
                 | None \<Rightarrow> (case message e of
                              None \<Rightarrow> fallbackMessage
                            | Some raw \<Rightarrow> if raw = [] then fallbackMessage else raw)) \<and>
            (m \<in> set fixedMessages \<or>
               (Option.bind (code e) (map_of errorTable) = None \<and> message e = Some m)))) \<and>
   (\<forall>e. signInWithEmailAndPassword env em pw = Inl e \<longrightarrow>
      login_attempt env em pw (login_begin s) = (Inl e, login_begin s) \<and>
      currentUser (snd (login env em pw s)) = currentUser s \<and>
      firebaseUser (snd (login env em pw s)) = firebaseUser s \<and>
      firestore (snd (login env em pw s)) = firestore s \<and>
      isAuthenticated (snd (login env em pw s)) = isAuthenticated s) \<and>
   (\<forall>fu e s2. signInWithEmailAndPassword env em pw = Inr fu \<and>
              login_attempt env em pw (login_begin s) = (Inl e, s2) \<longrightarrow>
      firebaseUser (snd (login env em pw s)) = Some fu \<and>
      currentUser (snd (login env em pw s)) =
        currentUser (onAuthStateChanged env (Some fu) (login_begin s)) \<and>
      firestore (snd (login env em pw s)) =
        firestore (onAuthStateChanged env (Some fu) (login_begin s)))"
proof (intro conjI allI impI)
  show "login env em pw s = settle (login_attempt env em pw (login_begin s))"
    by (simp add: login_def)
  show "loading (login_begin s) = True" "authError (login_begin s) = None"
    by (simp_all add: login_begin_def)
  show "loading (snd (login env em pw s)) = False"
  proof (cases "login_attempt env em pw (login_begin s)")
    case (Pair r s2)
    then show ?thesis by (cases r) (simp_all add: login_def settle_Inl settle_Inr)
  qed
next
  fix p assume ok: "fst (login env em pw s) = Inr p"
  obtain r s2 where a: "login_attempt env em pw (login_begin s) = (r, s2)"
    by (cases "login_attempt env em pw (login_begin s)")
  from login_attempt_authError [OF a] have "authError s2 = None"
    by (simp add: login_begin_def)
  with a ok show "authError (snd (login env em pw s)) = None"
    by (cases r) (simp_all add: login_def settle_Inl settle_Inr)
next
  fix e s2 assume a: "login_attempt env em pw (login_begin s) = (Inl e, s2)"
  then have l: "login env em pw s =
                  (Inl (errorMessage e), s2\<lparr>loading := False, authError := Some (errorMessage e)\<rparr>)"
    by (simp add: login_def settle_Inl)
  have "errorMessage e = (case Option.bind (code e) (map_of errorTable) of
                   Some fixed \<Rightarrow> fixed
                 | None \<Rightarrow> (case message e of
                              None \<Rightarrow> fallbackMessage
                            | Some raw \<Rightarrow> if raw = [] then fallbackMessage else raw))"
    by (simp add: errorMessage_def)
  with l errorMessage_cases [of e]
  show "\<exists>m. fst (login env em pw s) = Inl m \<and>
            authError (snd (login env em pw s)) = Some m \<and>
            m = (case Option.bind (code e) (map_of errorTable) of
                   Some fixed \<Rightarrow> fixed
                 | None \<Rightarrow> (case message e of
                              None \<Rightarrow> fallbackMessage
                            | Some raw \<Rightarrow> if raw = [] then fallbackMessage else raw)) \<and>
            (m \<in> set fixedMessages \<or>
               (Option.bind (code e) (map_of errorTable) = None \<and> message e = Some m))"
    by (intro exI [of _ "errorMessage e"]) simp
next
  fix e assume r: "signInWithEmailAndPassword env em pw = Inl e"
  then show a: "login_attempt env em pw (login_begin s) = (Inl e, login_begin s)"
    by (rule login_attempt_rejected)
  then have l: "snd (login env em pw s) =
                  (login_begin s)\<lparr>loading := False, authError := Some (errorMessage e)\<rparr>"
    by (simp add: login_def settle_Inl)
  from l show "currentUser (snd (login env em pw s)) = currentUser s"
    and "firebaseUser (snd (login env em pw s)) = firebaseUser s"
    and "firestore (snd (login env em pw s)) = firestore s"
    and "isAuthenticated (snd (login env em pw s)) = isAuthenticated s"
    by (simp_all add: login_begin_def isAuthenticated_def)
next
  fix fu e s2
  assume h: "signInWithEmailAndPassword env em pw = Inr fu \<and>
             login_attempt env em pw (login_begin s) = (Inl e, s2)"
  then have s2: "s2 = onAuthStateChanged env (Some fu) (login_begin s)"
    by (auto dest: login_attempt_failed_later)
  from h have l: "snd (login env em pw s) = s2\<lparr>loading := False, authError := Some (errorMessage e)\<rparr>"
    by (simp add: login_def settle_Inl)
  from l s2 show "firebaseUser (snd (login env em pw s)) = Some fu"
    by (simp add: onAuthStateChanged_frame)
  from l s2 show "currentUser (snd (login env em pw s)) =
        currentUser (onAuthStateChanged env (Some fu) (login_begin s))"
    by simp
  from l s2 show "firestore (snd (login env em pw s)) =
        firestore (onAuthStateChanged env (Some fu) (login_begin s))"
    by simp
qed


text \<open>
  A wrong password on a fresh service; a sign-in that resolves for a known user whose
  \<^verbatim>\<open>updateDoc\<close> is refused, with the listener finishing last; a successful login on a
  service that still shows an earlier error.
\<close>

theorem login_failure_witness:
  "fst (login (provider_signIn_fails wrong_password) ''ann@example.org'' ''guess'' (init Map.empty))
     = Inl ''Incorrect password. Please try again.'' \<and>
   authError (snd (login (provider_signIn_fails wrong_password) ''ann@example.org'' ''guess''
                     (init Map.empty))) = Some ''Incorrect password. Please try again.'' \<and>
   \<not> loading (snd (login (provider_signIn_fails wrong_password) ''ann@example.org'' ''guess''
                     (init Map.empty))) \<and>
   \<not> isAuthenticated (snd (login (provider_signIn_fails wrong_password) ''ann@example.org'' ''guess''
                     (init Map.empty))) \<and>
   firebaseUser (snd (login (provider_ok\<lparr>updateDoc := Some permission_denied, listenerFirst := False\<rparr>)
                     ''ann@example.org'' ''secret1'' (init [''u1'' \<mapsto> bare_doc])))
     = Some sample_firebaseUser \<and>
   authError (snd (login provider_ok ''ann@example.org'' ''secret1''
                     ((init [''u1'' \<mapsto> bare_doc])\<lparr>authError := Some ''Incorrect password. Please try again.''\<rparr>)))
     = None"
proof -
  let ?bad = "provider_signIn_fails wrong_password"
  let ?late = "provider_ok\<lparr>updateDoc := Some permission_denied, listenerFirst := False\<rparr>"
  let ?t = "(init [''u1'' \<mapsto> bare_doc])\<lparr>authError := Some ''Incorrect password. Please try again.''\<rparr>"
  have rejected: "signInWithEmailAndPassword ?bad ''ann@example.org'' ''guess'' = Inl wrong_password"
    by (simp add: provider_signIn_fails_def)
  have attempt: "login_attempt ?bad ''ann@example.org'' ''guess'' (login_begin (init Map.empty)) =
                   (Inl wrong_password, login_begin (init Map.empty))"
    using rejected by (simp add: login_attempt_def)
  have msg: "Option.bind (code wrong_password) (map_of errorTable) =
               Some ''Incorrect password. Please try again.''"
    by (simp add: wrong_password_def errorTable_def)
  have a: "fst (login ?bad ''ann@example.org'' ''guess'' (init Map.empty))
             = Inl ''Incorrect password. Please try again.'' \<and>
           authError (snd (login ?bad ''ann@example.org'' ''guess'' (init Map.empty)))
             = Some ''Incorrect password. Please try again.'' \<and>
           \<not> loading (snd (login ?bad ''ann@example.org'' ''guess'' (init Map.empty))) \<and>
           \<not> isAuthenticated (snd (login ?bad ''ann@example.org'' ''guess'' (init Map.empty)))"
    using login_failure [of ?bad "''ann@example.org''" "''guess''" "init Map.empty"] rejected attempt
    by (auto simp: msg not_isAuthenticated_init)
  have resolved: "signInWithEmailAndPassword ?late ''ann@example.org'' ''secret1'' = Inr sample_firebaseUser"
    by (simp add: provider_ok_def)
  have later: "login_attempt ?late ''ann@example.org'' ''secret1'' (login_begin (init [''u1'' \<mapsto> bare_doc])) =
                 (Inl permission_denied,
                  onAuthStateChanged ?late (Some sample_firebaseUser) (login_begin (init [''u1'' \<mapsto> bare_doc])))"
    by (simp add: login_attempt_def withAuthStateChange_def handleAuthSuccess_def getUserProfile_def
          provider_ok_def sample_firebaseUser_def init_def login_begin_def)
  have b: "firebaseUser (snd (login ?late ''ann@example.org'' ''secret1'' (init [''u1'' \<mapsto> bare_doc])))
             = Some sample_firebaseUser"
    using login_failure [of ?late "''ann@example.org''" "''secret1''" "init [''u1'' \<mapsto> bare_doc]"]
          resolved later
    by blast
  have ok: "\<exists>p. fst (login provider_ok ''ann@example.org'' ''secret1'' ?t) = Inr p"
    by (simp add: login_def login_attempt_def withAuthStateChange_def handleAuthSuccess_def
          onAuthStateChanged_def reconcile_def getUserProfile_def settle_def
          provider_ok_def sample_firebaseUser_def init_def login_begin_def)
  have c: "authError (snd (login provider_ok ''ann@example.org'' ''secret1'' ?t)) = None"
    using login_failure [of provider_ok "''ann@example.org''" "''secret1''" ?t] ok
    by blast
  from a b c show ?thesis by simp
qed

text \<open>
  Claim C7 as stated fails twice. For an error code outside the table, \<open>authError\<close> is
  the raw message, which is none of the fixed strings. And a login that fails after the
  sign-in has resolved (here \<^verbatim>\<open>updateDoc\<close> is refused) starts anonymous and ends
  authenticated, through the listener.
\<close>

theorem login_failure_counterexample:
  "authError (snd (login (provider_signIn_fails network_error) ''ann@example.org'' ''secret1''
                     (init Map.empty))) = Some ''Firebase: Error (auth/network-request-failed).'' \<and>
   ''Firebase: Error (auth/network-request-failed).'' \<notin> set fixedMessages \<and>
   \<not> isAuthenticated (init [''u1'' \<mapsto> bare_doc]) \<and>
   fst (login (provider_ok\<lparr>updateDoc := Some permission_denied\<rparr>) ''ann@example.org'' ''secret1''
          (init [''u1'' \<mapsto> bare_doc])) = Inl ''Missing or insufficient permissions.'' \<and>
   isAuthenticated (snd (login (provider_ok\<lparr>updateDoc := Some permission_denied\<rparr>)
                           ''ann@example.org'' ''secret1'' (init [''u1'' \<mapsto> bare_doc])))"
proof -
  have "authError (snd (login (provider_signIn_fails network_error) ''ann@example.org'' ''secret1''
                     (init Map.empty))) = Some ''Firebase: Error (auth/network-request-failed).''"
    by (simp add: login_def login_attempt_def provider_signIn_fails_def settle_def handleAuthError_def
          network_error_def Let_def)
  moreover have "''Firebase: Error (auth/network-request-failed).'' \<notin> set fixedMessages"
    by (simp add: fixedMessages_def errorTable_def fallbackMessage_def)
  moreover have "login (provider_ok\<lparr>updateDoc := Some permission_denied\<rparr>) ''ann@example.org'' ''secret1''
          (init [''u1'' \<mapsto> bare_doc]) =
        settle (Inl permission_denied,
                onAuthStateChanged (provider_ok\<lparr>updateDoc := Some permission_denied\<rparr>)
                  (Some sample_firebaseUser) (login_begin (init [''u1'' \<mapsto> bare_doc])))"
    by (simp add: login_def login_attempt_def withAuthStateChange_def handleAuthSuccess_def
          getUserProfile_def onAuthStateChanged_def reconcile_def
          provider_ok_def sample_firebaseUser_def init_def login_begin_def)
  then have "fst (login (provider_ok\<lparr>updateDoc := Some permission_denied\<rparr>) ''ann@example.org'' ''secret1''
          (init [''u1'' \<mapsto> bare_doc])) = Inl ''Missing or insufficient permissions.''"
    and "isAuthenticated (snd (login (provider_ok\<lparr>updateDoc := Some permission_denied\<rparr>)
                           ''ann@example.org'' ''secret1'' (init [''u1'' \<mapsto> bare_doc])))"
    by (simp_all add: settle_def handleAuthError_def permission_denied_def Let_def
          onAuthStateChanged_def reconcile_def getUserProfile_def isAuthenticated_def
          provider_ok_def sample_firebaseUser_def init_def login_begin_def)
  ultimately show ?thesis
    by (simp add: not_isAuthenticated_init)
qed


subsection \<open>Registration\<close>

text \<open>
  When the email dispatch rejects, the callback of \<^verbatim>\<open>switchMap\<close> has written nothing,
  so in either order the service before \<open>settle\<close> is as the listener leaves it.
\<close>

lemma register_attempt_fails_at_email:
  assumes "createUserWithEmailAndPassword env em pw = Inr fu"
    and "updateProfile env = None"
    and "sendEmailVerification env = Some e"
  shows "register env em pw dn s =
           settle (Inl e, onAuthStateChanged env (Some fu) (s\<lparr>loading := True, authError := None\<rparr>))"
  using assms by (cases "listenerFirst env") (simp_all add: register_def withAuthStateChange_def)

text \<open>
  Claim C5, amended. When the provider creates the account and updates the display name
  but the dispatch of the verification email fails, \<open>register\<close> fails: it reports the
  message of that error (fixed by the table, or raw, or the fallback) to its caller and
  stores it in \<open>authError\<close>, and \<open>loading\<close> is false afterwards. The account is not
  rolled back: the created user stays the raw identity of the session and the router is
  not used. \<open>register\<close> itself writes no profile: the current user and the store are as
  the listener leaves them for the created user, which, when the store answers and has
  no record for that user, is a profile with the roles \<open>[user]\<close> and the permissions
  \<open>[''read'']\<close> in the session and in the store, and an authenticated session.
\<close>

theorem register_fails_with_verification_email:
  assumes "createUserWithEmailAndPassword env em pw = Inr fu"
    and "updateProfile env = None"
    and "sendEmailVerification env = Some e"
  shows "(\<exists>m. fst (register env em pw dn s) = Inl m \<and>
              authError (snd (register env em pw dn s)) = Some m \<and>
              m = (case Option.bind (code e) (map_of errorTable) of
                     Some fixed \<Rightarrow> fixed
                   | None \<Rightarrow> (case message e of
                                None \<Rightarrow> fallbackMessage
                              | Some raw \<Rightarrow> if raw = [] then fallbackMessage else raw))) \<and>
         loading (snd (register env em pw dn s)) = False \<and>
         firebaseUser (snd (register env em pw dn s)) = Some fu \<and>
         router (snd (register env em pw dn s)) = router s \<and>
         currentUser (snd (register env em pw dn s)) =
           currentUser (onAuthStateChanged env (Some fu) s) \<and>
         firestore (snd (register env em pw dn s)) =
           firestore (onAuthStateChanged env (Some fu) s) \<and>
         (getDoc env = None \<and> setDoc env = None \<and> firestore s (fu_uid fu) = None \<longrightarrow>
            isAuthenticated (snd (register env em pw dn s)) \<and>
            map_option roles (currentUser (snd (register env em pw dn s))) = Some [user] \<and>
            map_option permissions (currentUser (snd (register env em pw dn s))) = Some [''read''] \<and>
            map_option up_roles (firestore (snd (register env em pw dn s)) (fu_uid fu)) =
              Some (Some [user]) \<and>
            map_option up_permissions (firestore (snd (register env em pw dn s)) (fu_uid fu)) =
              Some (Some [''read'']))"
proof -
  let ?l = "onAuthStateChanged env (Some fu) (s\<lparr>loading := True, authError := None\<rparr>)"
  have r: "register env em pw dn s =
             (Inl (errorMessage e), ?l\<lparr>loading := False, authError := Some (errorMessage e)\<rparr>)"
    using register_attempt_fails_at_email [OF assms] by (simp add: settle_Inl)
  have same: "currentUser ?l = currentUser (onAuthStateChanged env (Some fu) s)"
             "firestore ?l = firestore (onAuthStateChanged env (Some fu) s)"
    using onAuthStateChanged_ignores_flags [where env = env and x = "Some fu" and s = s and a = True and b = None]
    by simp_all
  have frame: "firebaseUser ?l = Some fu" "router ?l = router s"
    using onAuthStateChanged_frame [of env "Some fu" "s\<lparr>loading := True, authError := None\<rparr>"]
    by simp_all
  have msg: "\<exists>m. fst (register env em pw dn s) = Inl m \<and>
              authError (snd (register env em pw dn s)) = Some m \<and>
              m = (case Option.bind (code e) (map_of errorTable) of
                     Some fixed \<Rightarrow> fixed
                   | None \<Rightarrow> (case message e of
                                None \<Rightarrow> fallbackMessage
                              | Some raw \<Rightarrow> if raw = [] then fallbackMessage else raw))"
    using r by (intro exI [of _ "errorMessage e"]) (simp add: errorMessage_def)
  have first: "getDoc env = None \<and> setDoc env = None \<and> firestore s (fu_uid fu) = None \<longrightarrow>
            isAuthenticated (snd (register env em pw dn s)) \<and>
            map_option roles (currentUser (snd (register env em pw dn s))) = Some [user] \<and>
            map_option permissions (currentUser (snd (register env em pw dn s))) = Some [''read''] \<and>
            map_option up_roles (firestore (snd (register env em pw dn s)) (fu_uid fu)) =
              Some (Some [user]) \<and>
            map_option up_permissions (firestore (snd (register env em pw dn s)) (fu_uid fu)) =
              Some (Some [''read''])"
  proof
    assume a: "getDoc env = None \<and> setDoc env = None \<and> firestore s (fu_uid fu) = None"
    then have "isAuthenticated (onAuthStateChanged env (Some fu) s)"
      and "map_option roles (currentUser (onAuthStateChanged env (Some fu) s)) = Some [user]"
      and "map_option permissions (currentUser (onAuthStateChanged env (Some fu) s)) = Some [''read'']"
      and "map_option up_roles (firestore (onAuthStateChanged env (Some fu) s) (fu_uid fu)) =
             Some (Some [user])"
      and "map_option up_permissions (firestore (onAuthStateChanged env (Some fu) s) (fu_uid fu)) =
             Some (Some [''read''])"
      using onAuthStateChanged_first_login [of env s fu] by simp_all
    with r same frame
    show "isAuthenticated (snd (register env em pw dn s)) \<and>
            map_option roles (currentUser (snd (register env em pw dn s))) = Some [user] \<and>
            map_option permissions (currentUser (snd (register env em pw dn s))) = Some [''read''] \<and>
            map_option up_roles (firestore (snd (register env em pw dn s)) (fu_uid fu)) =
              Some (Some [user]) \<and>
            map_option up_permissions (firestore (snd (register env em pw dn s)) (fu_uid fu)) =
              Some (Some [''read''])"
      by (auto simp: isAuthenticated_def)
  qed
  from r same frame msg first show ?thesis by simp
qed

text \<open>A registration on a fresh service and an empty store, in both orders.\<close>

theorem register_fails_with_verification_email_witness:
  "fst (register (provider_ok\<lparr>sendEmailVerification := Some network_error\<rparr>)
          ''ann@example.org'' ''secret1'' ''Ann'' (init Map.empty))
     = Inl ''Firebase: Error (auth/network-request-failed).'' \<and>
   authError (snd (register (provider_ok\<lparr>sendEmailVerification := Some network_error\<rparr>)
          ''ann@example.org'' ''secret1'' ''Ann'' (init Map.empty)))
     = Some ''Firebase: Error (auth/network-request-failed).'' \<and>
   \<not> loading (snd (register (provider_ok\<lparr>sendEmailVerification := Some network_error\<rparr>)
          ''ann@example.org'' ''secret1'' ''Ann'' (init Map.empty))) \<and>
   firebaseUser (snd (register (provider_ok\<lparr>sendEmailVerification := Some network_error\<rparr>)
          ''ann@example.org'' ''secret1'' ''Ann'' (init Map.empty))) = Some sample_firebaseUser \<and>
   isAuthenticated (snd (register (provider_ok\<lparr>sendEmailVerification := Some network_error\<rparr>)
          ''ann@example.org'' ''secret1'' ''Ann'' (init Map.empty))) \<and>
   map_option up_roles
     (firestore (snd (register (provider_ok\<lparr>sendEmailVerification := Some network_error\<rparr>)
          ''ann@example.org'' ''secret1'' ''Ann'' (init Map.empty))) ''u1'') = Some (Some [user]) \<and>
   isAuthenticated (snd (register
          (provider_ok\<lparr>sendEmailVerification := Some network_error, listenerFirst := False\<rparr>)
          ''ann@example.org'' ''secret1'' ''Ann'' (init Map.empty)))"
proof -
  let ?env = "provider_ok\<lparr>sendEmailVerification := Some network_error\<rparr>"
  let ?late = "provider_ok\<lparr>sendEmailVerification := Some network_error, listenerFirst := False\<rparr>"
  have a: "createUserWithEmailAndPassword ?env ''ann@example.org'' ''secret1'' = Inr sample_firebaseUser"
    and b: "updateProfile ?env = None"
    and c: "sendEmailVerification ?env = Some network_error"
    and a': "createUserWithEmailAndPassword ?late ''ann@example.org'' ''secret1'' = Inr sample_firebaseUser"
    and b': "updateProfile ?late = None"
    and c': "sendEmailVerification ?late = Some network_error"
    by (simp_all add: provider_ok_def)
  have store: "getDoc ?env = None \<and> setDoc ?env = None \<and>
               firestore (init Map.empty) (fu_uid sample_firebaseUser) = None"
              "getDoc ?late = None \<and> setDoc ?late = None \<and>
               firestore (init Map.empty) (fu_uid sample_firebaseUser) = None"
    by (simp_all add: provider_ok_def init_def)
  have msg: "Option.bind (code network_error) (map_of errorTable) = None"
            "message network_error = Some ''Firebase: Error (auth/network-request-failed).''"
    by (simp_all add: network_error_def errorTable_def)
  have uid: "fu_uid sample_firebaseUser = ''u1''" by (simp add: sample_firebaseUser_def)
  from register_fails_with_verification_email [OF a b c, of "''Ann''" "init Map.empty"]
       register_fails_with_verification_email [OF a' b' c', of "''Ann''" "init Map.empty"]
       store
  show ?thesis by (auto simp: msg uid)
qed

text \<open>
  Claim C5 as stated fails: the account is created, the email dispatch fails, and
  \<open>register\<close> reports the error to its caller.
\<close>

theorem register_verification_counterexample:
  "createUserWithEmailAndPassword (provider_ok\<lparr>sendEmailVerification := Some network_error\<rparr>)
     ''ann@example.org'' ''secret1'' = Inr sample_firebaseUser \<and>
   sendEmailVerification (provider_ok\<lparr>sendEmailVerification := Some network_error\<rparr>)
     = Some network_error \<and>
   fst (register (provider_ok\<lparr>sendEmailVerification := Some network_error\<rparr>)
          ''ann@example.org'' ''secret1'' ''Ann'' (init Map.empty))
     = Inl ''Firebase: Error (auth/network-request-failed).''"
  by (simp add: register_def withAuthStateChange_def settle_def provider_ok_def handleAuthError_def
        network_error_def Let_def)


subsection \<open>Roles and permissions of an adopted profile\<close>




end
